theory Spec2Isabelle
  imports Complex_Main
begin

section \<open>Messages on the session WebSocket\<close>

text \<open>
  The payload of a \<open>height_update\<close> message, as the interfaces \<open>HeightData\<close> of
  \<open>App.tsx\<close> and of the height display declare it. A JSON number is a finite
  number, so \<open>number\<close> is \<open>real\<close> here; an optional field is an \<open>option\<close>.
  The field \<open>measurement_method\<close> is the source's optional \<open>method\<close>.
\<close>

record HeightData =
  height_cm :: real
  height_feet_inches :: string
  confidence :: real
  measurement_method :: "string option"

text \<open>
  The object \<open>JSON.parse(event.data)\<close> yields in \<open>ws.onmessage\<close>, restricted to the
  four fields the handler reads: \<open>data.image\<close>, \<open>data.type\<close>, \<open>data.progress\<close> and
  \<open>data.height\<close>, each with the type the protocol gives it. A message without a
  \<open>type\<close> field behaves as one whose type matches no \<open>case\<close> of the \<open>switch\<close>.
\<close>

record server_msg =
  msg_image :: "string option"
  msg_type :: string
  msg_progress :: "real option"
  msg_height :: "HeightData option"

text \<open>
  What the client hands to \<open>ws.send\<close>: the object given to \<open>JSON.stringify\<close>, as
  its list of fields in order (both outbound messages have string fields only).
\<close>

type_synonym json_object = "(string \<times> string) list"

datatype readyState = CONNECTING | OPEN | CLOSING | CLOSED

section \<open>Client session state\<close>

text \<open>
  The React state of \<open>App\<close> (first four fields) and of \<open>CameraComponent\<close> (the
  rest). The camera component has an \<open>isDetecting\<close> and an \<open>error\<close> of its own.
\<close>

record client_state =
  isCalibrated :: bool
  heightData :: "HeightData option"
  isDetecting :: bool
  cameraError :: "string option"
  isConnected :: bool
  cam_isDetecting :: bool
  processedImage :: "string option"
  cam_error :: "string option"
  calibrationProgress :: "real option"
  hasInteracted :: bool

definition initial_state :: client_state where
  "initial_state =
     \<lparr>isCalibrated = False, heightData = None, isDetecting = False, cameraError = None,
      isConnected = False, cam_isDetecting = False, processedImage = None,
      cam_error = None, calibrationProgress = None, hasInteracted = False\<rparr>"

subsection \<open>Callbacks of \<open>App\<close>\<close>

definition handleCalibrationComplete :: "client_state \<Rightarrow> client_state" where
  "handleCalibrationComplete s = s\<lparr>isCalibrated := True\<rparr>"

definition handleHeightUpdate :: "HeightData option \<Rightarrow> client_state \<Rightarrow> client_state" where
  "handleHeightUpdate data s =
     (let s1 = s\<lparr>heightData := data\<rparr>
      in case data of
           None \<Rightarrow> s1
         | Some h \<Rightarrow> if height_cm h > 0 then s1\<lparr>isCalibrated := True\<rparr> else s1)"

definition handleDetectionToggle :: "bool \<Rightarrow> client_state \<Rightarrow> client_state" where
  "handleDetectionToggle detecting s = s\<lparr>isDetecting := detecting\<rparr>"

definition handleCameraError :: "string \<Rightarrow> client_state \<Rightarrow> client_state" where
  "handleCameraError e s = s\<lparr>cameraError := Some e\<rparr>"

subsection \<open>\<open>ws.onmessage\<close>\<close>

text \<open>\<open>if (data.image) setProcessedImage(...)\<close>: a string is truthy when it is not empty.\<close>

definition set_image :: "server_msg \<Rightarrow> client_state \<Rightarrow> client_state" where
  "set_image d s =
     (case msg_image d of
        None \<Rightarrow> s
      | Some img \<Rightarrow>
          if img \<noteq> [] then s\<lparr>processedImage := Some (''data:image/jpeg;base64,'' @ img)\<rparr>
          else s)"

text \<open>\<open>data.progress || 0\<close>: an absent field and the number 0 are both falsy.\<close>

definition progress_or_zero :: "real option \<Rightarrow> real" where
  "progress_or_zero p = (case p of None \<Rightarrow> 0 | Some v \<Rightarrow> if v = 0 then 0 else v)"

text \<open>The \<open>switch (data.type)\<close>, one branch per \<open>case\<close>, in the source's order.\<close>

definition switch_type :: "server_msg \<Rightarrow> client_state \<Rightarrow> client_state" where
  "switch_type d s =
     (if msg_type d = ''calibrating'' then
        (handleDetectionToggle False
          (handleHeightUpdate None
            (s\<lparr>calibrationProgress := Some (progress_or_zero (msg_progress d))\<rparr>)))
          \<lparr>cam_isDetecting := False\<rparr>
      else if msg_type d = ''height_update'' then
        (handleDetectionToggle True
          (handleHeightUpdate (msg_height d)
            (s\<lparr>calibrationProgress := None\<rparr>)))
          \<lparr>cam_isDetecting := True\<rparr>
      else if msg_type d = ''info'' \<or> msg_type d = ''no_person'' then
        (handleDetectionToggle False (handleHeightUpdate None s))
          \<lparr>cam_isDetecting := False\<rparr>
      else if msg_type d = ''reset_ack'' then
        s\<lparr>calibrationProgress := Some 0\<rparr>
      else s)"

definition onmessage :: "server_msg \<Rightarrow> client_state \<Rightarrow> client_state" where
  "onmessage d s = switch_type d (set_image d s)"

definition receive_all :: "client_state \<Rightarrow> server_msg list \<Rightarrow> client_state" where
  "receive_all s ds = foldl (\<lambda>st d. onmessage d st) s ds"

subsection \<open>Reset\<close>

text \<open>
  \<open>resetSystem\<close> of the camera component: the new state and the messages sent.
  Its argument is \<open>wsRef.current\<close>, absent or a socket in some ready state.
\<close>

definition resetSystem ::
  "readyState option \<Rightarrow> client_state \<Rightarrow> client_state \<times> json_object list" where
  "resetSystem ws s =
     (s\<lparr>processedImage := None, calibrationProgress := Some 0\<rparr>,
      if ws = Some OPEN then [[(''type'', ''reset'')]] else [])"

text \<open>
  \<open>handleReset\<close> of \<open>App\<close>; \<open>cameraRef\<close> tells whether \<open>cameraRef.current\<close> is set,
  which it is while the camera component is mounted.
\<close>

definition handleReset ::
  "bool \<Rightarrow> readyState option \<Rightarrow> client_state \<Rightarrow> client_state \<times> json_object list" where
  "handleReset cameraRef ws s =
     (let s1 = s\<lparr>isCalibrated := False, heightData := None, isDetecting := False,
                 cameraError := None\<rparr>
      in if cameraRef then resetSystem ws s1 else (s1, []))"

subsection \<open>\<open>captureFrame\<close>\<close>

record video_element =
  paused :: bool
  ended :: bool
  videoWidth :: nat
  videoHeight :: nat

text \<open>
  What one run of \<open>captureFrame\<close> reads from the browser: \<open>videoRef.current\<close>,
  \<open>wsRef.current\<close>, whether \<open>canvas.getContext('2d')\<close> gave a context, and the base64
  text of the JPEG the canvas encodes the drawn frame to.
\<close>

record capture_env =
  videoRef :: "video_element option"
  wsRef :: "readyState option"
  context2d :: bool
  frame_jpeg_base64 :: string

definition toDataURL :: "capture_env \<Rightarrow> string" where
  "toDataURL env = ''data:image/jpeg;base64,'' @ frame_jpeg_base64 env"

text \<open>\<open>String.prototype.split\<close> with a one-character separator.\<close>

fun split :: "char \<Rightarrow> string \<Rightarrow> string list" where
  "split c [] = [[]]"
| "split c (x # xs) =
     (if x = c then [] # split c xs
      else (case split c xs of [] \<Rightarrow> [[x]] | w # ws \<Rightarrow> (x # w) # ws))"

text \<open>Indexing a JavaScript array: out of range is \<open>undefined\<close>.\<close>

definition index :: "'a list \<Rightarrow> nat \<Rightarrow> 'a option" where
  "index xs i = (if i < length xs then Some (xs ! i) else None)"

text \<open>\<open>JSON.stringify\<close> leaves out a field whose value is \<open>undefined\<close>.\<close>

definition image_message :: "string option \<Rightarrow> json_object" where
  "image_message base64Data =
     (''type'', ''image'') #
     (case base64Data of None \<Rightarrow> [] | Some b \<Rightarrow> [(''data'', b)])"

record capture_result =
  play_called :: bool
  sent :: "json_object list"

definition captureFrame :: "capture_env \<Rightarrow> capture_result" where
  "captureFrame env =
     (case videoRef env of
        None \<Rightarrow> \<lparr>play_called = False, sent = []\<rparr>
      | Some v \<Rightarrow>
          if wsRef env \<noteq> Some OPEN then \<lparr>play_called = False, sent = []\<rparr>
          else
            (let play = (paused v \<or> ended v)
             in if videoWidth v > 0 \<and> videoHeight v > 0 then
                  (if context2d env then
                     (let base64Data = index (split CHR '','' (toDataURL env)) 1
                      in \<lparr>play_called = play, sent = [image_message base64Data]\<rparr>)
                   else \<lparr>play_called = play, sent = []\<rparr>)
                else \<lparr>play_called = play, sent = []\<rparr>))"

section \<open>Calibration estimator\<close>

text \<open>
  Modelled from the spec: the calibration estimator runs in the backend
  (\<open>backend/main.py\<close>), which is not among the sources; the definitions of this
  section follow section 4.2 of the specification. Pixel lengths are real numbers.
\<close>

datatype CalibrationState = Uncalibrated "real list" | Calibrated real

text \<open>
  Modelled from the spec: the target sample count and the reference adult torso length
  in centimetres, constants of the absent backend.
\<close>

definition TARGET_SAMPLES :: nat where
  "TARGET_SAMPLES = 40"

definition REFERENCE_TORSO_CM :: real where
  "REFERENCE_TORSO_CM = 50"

text \<open>Modelled from the spec: the arithmetic mean the absent backend takes.\<close>

definition mean :: "real list \<Rightarrow> real" where
  "mean xs = sum_list xs / real (length xs)"

text \<open>
  Modelled from the spec: the trimming step of the absent backend. Sort by pixel length,
  then discard the lowest and the highest 10 percent.
\<close>

definition trim_tails :: "real list \<Rightarrow> real list" where
  "trim_tails xs =
     (let k = length xs div 10
      in take (length xs - 2 * k) (drop k (sort xs)))"

text \<open>
  Modelled from the spec: one valid frame of the absent backend's estimator. A sample is
  collected only while uncalibrated; on reaching the target the buffer is trimmed and
  averaged to \<open>torso_px\<close>; a \<open>torso_px\<close> of zero or less clears the buffer and stays
  uncalibrated, otherwise the scale is the reference length over \<open>torso_px\<close>.
\<close>

fun add_sample :: "real \<Rightarrow> CalibrationState \<Rightarrow> CalibrationState" where
  "add_sample x (Calibrated scale) = Calibrated scale"
| "add_sample x (Uncalibrated samples) =
     (let buf = samples @ [x]
      in if length buf < TARGET_SAMPLES then Uncalibrated buf
         else (let torso_px = mean (trim_tails buf)
               in if torso_px \<le> 0 then Uncalibrated []
                  else Calibrated (REFERENCE_TORSO_CM / torso_px)))"

text \<open>
  Modelled from the spec: the absent backend's estimator over a sequence of valid frames,
  in arrival order.
\<close>

definition feed :: "CalibrationState \<Rightarrow> real list \<Rightarrow> CalibrationState" where
  "feed st xs = foldl (\<lambda>s x. add_sample x s) st xs"

section \<open>Rendered components\<close>

text \<open>
  A component renders to a tree of elements. An attribute is a boolean, a number, a
  string or an event handler of the calibration form; a child is an element, a text,
  a number in its default rendering (\<open>Num\<close>) or a number under \<open>toFixed(n)\<close>
  (\<open>Fixed x n\<close>).
\<close>

datatype handler =
  HandleCalibrate | SetReferenceObject | SetCustomHeight | SetReferenceHeightPixels

datatype attr = ABool bool | ANum real | AStr string | AHandler handler

datatype jsx =
  Text string
| Num real
| Fixed real nat
| Elem string "(string \<times> attr) list" "jsx list"

fun subtrees :: "jsx \<Rightarrow> jsx list" where
  "subtrees (Elem name attrs children) =
     Elem name attrs children # concat (map subtrees children)"
| "subtrees t = [t]"

fun attr_handlers :: "(string \<times> attr) list \<Rightarrow> handler list" where
  "attr_handlers [] = []"
| "attr_handlers ((k, AHandler h) # as) = h # attr_handlers as"
| "attr_handlers (a # as) = attr_handlers as"

text \<open>
  The handlers a user can trigger in a rendered tree: those of its elements, a disabled
  element offering none.
\<close>

fun handlers :: "jsx \<Rightarrow> handler list" where
  "handlers (Elem name attrs children) =
     (if (''disabled'', ABool True) \<in> set attrs then [] else attr_handlers attrs)
     @ concat (map handlers children)"
| "handlers t = []"

text \<open>\<open>{cond && (...)}\<close> renders its right-hand side when \<open>cond\<close> holds, else nothing.\<close>

definition jsx_and :: "bool \<Rightarrow> jsx list \<Rightarrow> jsx list" where
  "jsx_and cond children = (if cond then children else [])"

text \<open>The same for a string or \<open>null\<close> on the left: the empty string is falsy too.\<close>

definition jsx_and_string :: "string option \<Rightarrow> (string \<Rightarrow> jsx list) \<Rightarrow> jsx list" where
  "jsx_and_string v children =
     (case v of None \<Rightarrow> [] | Some t \<Rightarrow> if t \<noteq> [] then children t else [])"

subsection \<open>\<open>HeightDisplay\<close>\<close>

record HeightDisplayProps =
  p_heightData :: "HeightData option"
  p_isDetecting :: bool
  p_isCalibrated :: bool

definition low_confidence_message :: string where
  "low_confidence_message =
     ''Low confidence detection. Try standing straight and ensure good lighting.''"

definition getStatusMessage :: "HeightDisplayProps \<Rightarrow> (string \<times> string) option" where
  "getStatusMessage p =
     (if \<not> p_isCalibrated p then
        Some (''info'',
          ''System will auto-calibrate when you stand in front of the camera with full body visible.'')
      else if \<not> p_isDetecting p then
        Some (''info'', ''Stand in front of the camera to measure your height.'')
      else
        (case p_heightData p of
           None \<Rightarrow> None
         | Some h \<Rightarrow>
             if confidence h < 0.5 then Some (''warning'', low_confidence_message)
             else None))"

definition measurement_view :: "HeightDisplayProps \<Rightarrow> HeightData \<Rightarrow> jsx list" where
  "measurement_view p h =
     [Elem ''HeightValue'' [(''isDetecting'', ABool (p_isDetecting p))]
        [Fixed (height_cm h) 1, Text '' cm''],
      Elem ''UnitDisplay'' []
        [Elem ''UnitCard'' []
           [Elem ''UnitLabel'' [] [Text ''Centimeters''],
            Elem ''UnitValue'' [] [Fixed (height_cm h) 1]],
         Elem ''UnitCard'' []
           [Elem ''UnitLabel'' [] [Text ''Feet & Inches''],
            Elem ''UnitValue'' [] [Text (height_feet_inches h)]]],
      Elem ''ConfidenceBar'' []
        [Elem ''ConfidenceLabel'' [] [Text ''Detection Confidence''],
         Elem ''ConfidenceBarFill'' [(''confidence'', ANum (confidence h / 100))] [],
         Elem ''ConfidenceValue'' [] [Fixed (confidence h) 0, Text ''%'']],
      Elem ''StatusMessage'' [(''type'', AStr ''info'')]
        ([Elem ''strong'' [] [Text ''System:''],
          Text '' Advanced Holistic Detection with Kalman Filtering'']
         @ jsx_and_string (measurement_method h) (\<lambda>m. [Text ('' - '' @ m)]))]"

definition no_measurement_view :: "HeightDisplayProps \<Rightarrow> jsx list" where
  "no_measurement_view p =
     [Elem ''HeightValue'' [(''isDetecting'', ABool False)]
        [Text (if p_isCalibrated p then ''--'' else ''N/A'')]]"

definition HeightDisplay :: "HeightDisplayProps \<Rightarrow> jsx" where
  "HeightDisplay p =
     Elem ''DisplayContainer'' []
       ([Elem ''Title'' [] [Text ''Height Measurement'']]
        @ (case p_heightData p of
             None \<Rightarrow> no_measurement_view p
           | Some h \<Rightarrow>
               if p_isDetecting p then measurement_view p h else no_measurement_view p)
        @ (case getStatusMessage p of
             None \<Rightarrow> []
           | Some (ty, message) \<Rightarrow>
               [Elem ''StatusMessage'' [(''type'', AStr ty)] [Text message]]))"

text \<open>The props \<open>App\<close> passes to the height display.\<close>

definition display_props :: "client_state \<Rightarrow> HeightDisplayProps" where
  "display_props s =
     \<lparr>p_heightData = heightData s, p_isDetecting = isDetecting s,
      p_isCalibrated = isCalibrated s\<rparr>"

subsection \<open>\<open>CalibrationComponent\<close>\<close>

text \<open>The component's own React state.\<close>

record calibration_form =
  referenceObject :: string
  customHeight :: string
  referenceHeightPixels :: string
  isCalibrating :: bool
  form_error :: "string option"
  success :: "string option"

definition initial_form :: calibration_form where
  "initial_form =
     \<lparr>referenceObject = ''credit_card'', customHeight = [], referenceHeightPixels = [],
      isCalibrating = False, form_error = None, success = None\<rparr>"

text \<open>The table \<open>referenceObjects\<close>: key, name and height in centimetres.\<close>

definition referenceObjects :: "(string \<times> string \<times> real) list" where
  "referenceObjects =
     [(''credit_card'', ''Credit Card'', 5.4),
      (''a4_paper'', ''A4 Paper (width)'', 21.0),
      (''a4_paper_height'', ''A4 Paper (height)'', 29.7),
      (''iphone'', ''iPhone (height)'', 14.7),
      (''custom'', ''Custom'', 0)]"

text \<open>
  The body of the request \<open>handleCalibrate\<close> posts to \<open>/calibrate\<close>; a field that is
  \<open>NaN\<close> is \<open>None\<close>. The server's answer is the status \<open>calibrated\<close>, another
  answer, or a failed request.
\<close>

record calibrate_request =
  reference_height_cm :: "real option"
  reference_height_pixels :: "real option"

datatype calibrate_reply = ReplyCalibrated | ReplyOther | RequestFailed

datatype 'a js_result = Returned 'a | TypeError

text \<open>A comparison \<open>x <= 0\<close> where \<open>x\<close> may be \<open>NaN\<close>, which compares false.\<close>

definition le_zero :: "real option \<Rightarrow> bool" where
  "le_zero x = (case x of None \<Rightarrow> False | Some v \<Rightarrow> v \<le> 0)"

text \<open>
  \<open>handleCalibrate\<close>, run to its end against the server's answer: the new state, the
  requests posted and whether \<open>onCalibrationComplete\<close> was called. \<open>parseFloat\<close> is
  the JavaScript function of that name, \<open>None\<close> standing for \<open>NaN\<close>. Reading
  \<open>.height\<close> of a key that the table lacks throws.
\<close>

definition handleCalibrate ::
  "(string \<Rightarrow> real option) \<Rightarrow> calibrate_reply \<Rightarrow> calibration_form \<Rightarrow>
   (calibration_form \<times> calibrate_request list \<times> bool) js_result" where
  "handleCalibrate parseFloat reply st =
     (if referenceHeightPixels st = [] \<or> le_zero (parseFloat (referenceHeightPixels st)) then
        Returned
          (st\<lparr>form_error :=
                Some ''Please enter a valid pixel height for the reference object''\<rparr>,
           [], False)
      else
        (case (if referenceObject st = ''custom'' then Some (parseFloat (customHeight st))
               else map_option (\<lambda>(name, height). Some height)
                      (map_of referenceObjects (referenceObject st))) of
           None \<Rightarrow> TypeError
         | Some heightCm \<Rightarrow>
             if le_zero heightCm then
               Returned
                 (st\<lparr>form_error :=
                       Some ''Please enter a valid height for the reference object''\<rparr>,
                  [], False)
             else
               (let st1 = st\<lparr>isCalibrating := True, form_error := None, success := None\<rparr>;
                    request = \<lparr>reference_height_cm = heightCm,
                               reference_height_pixels =
                                 parseFloat (referenceHeightPixels st)\<rparr>
                in case reply of
                     ReplyCalibrated \<Rightarrow>
                       Returned
                         (st1\<lparr>success := Some ''Calibration completed successfully!'',
                              isCalibrating := False\<rparr>,
                          [request], True)
                   | ReplyOther \<Rightarrow>
                       Returned
                         (st1\<lparr>form_error := Some ''Calibration failed. Please try again.'',
                              isCalibrating := False\<rparr>,
                          [request], False)
                   | RequestFailed \<Rightarrow>
                       Returned
                         (st1\<lparr>form_error :=
                                Some ''Failed to connect to server. Make sure the backend is running.'',
                              isCalibrating := False\<rparr>,
                          [request], False))))"

text \<open>The check mark and the bullet of the static texts, in UTF-8.\<close>

definition check_mark :: string where
  "check_mark = [CHR 0xE2, CHR 0x9C, CHR 0x93]"

definition bullet :: string where
  "bullet = [CHR 0xE2, CHR 0x80, CHR 0xA2]"

definition br :: jsx where
  "br = Elem ''br'' [] []"

definition option_element :: "string \<times> string \<times> real \<Rightarrow> jsx" where
  "option_element entry =
     (case entry of (key, name, height) \<Rightarrow>
        Elem ''option'' [(''key'', AStr key), (''value'', AStr key)]
          ([Text name, Text '' '']
           @ (if height > 0 then [Text ''('', Num height, Text ''cm)''] else [Text []])))"

text \<open>The fragment behind the guard \<open>false &&\<close>: the manual calibration form.\<close>

definition manual_form :: "calibration_form \<Rightarrow> jsx list" where
  "manual_form st =
     [Elem ''FormGroup'' []
        [Elem ''Label'' [] [Text ''Reference Object:''],
         Elem ''Select''
           [(''value'', AStr (referenceObject st)), (''onChange'', AHandler SetReferenceObject)]
           (map option_element referenceObjects)]]
     @ jsx_and (referenceObject st = ''custom'')
         [Elem ''FormGroup'' []
            [Elem ''Label'' [] [Text ''Custom Height (cm):''],
             Elem ''Input''
               [(''type'', AStr ''number''), (''step'', AStr ''0.1''),
                (''value'', AStr (customHeight st)), (''onChange'', AHandler SetCustomHeight),
                (''placeholder'', AStr ''Enter height in cm'')] []]]
     @ [Elem ''FormGroup'' []
          [Elem ''Label'' [] [Text ''Reference Object Height in Pixels:''],
           Elem ''Input''
             [(''type'', AStr ''number''), (''step'', AStr ''1''),
              (''value'', AStr (referenceHeightPixels st)),
              (''onChange'', AHandler SetReferenceHeightPixels),
              (''placeholder'', AStr ''Measure and enter pixel height'')] []],
        Elem ''Button''
          [(''onClick'', AHandler HandleCalibrate),
           (''disabled'', ABool (isCalibrating st \<or> referenceHeightPixels st = []))]
          [Text (if isCalibrating st then ''Calibrating...'' else ''Calibrate System'')]]
     @ jsx_and_string (form_error st) (\<lambda>e. [Elem ''ErrorMessage'' [] [Text e]])
     @ jsx_and_string (success st) (\<lambda>m. [Elem ''SuccessMessage'' [] [Text m]])
     @ [Elem ''Instructions'' []
          [Elem ''strong'' [] [Text ''Calibration Instructions:''], br,
           Text ''1. Place the reference object next to where the person will stand'', br,
           Text (''2. Take a photo or measure the object'' @ [CHR 0x27]
                 @ ''s height in pixels''), br,
           Text ''3. Enter the pixel height above'', br,
           Text (''4. Click '' @ [CHR 0x22] @ ''Calibrate System'' @ [CHR 0x22]), br,
           Elem ''em'' []
             [Text ''Note: The reference object should be at the same distance as the person will be.'']]]"

definition system_notes :: jsx where
  "system_notes =
     Elem ''Instructions'' []
       [Elem ''strong'' [] [Text ''Advanced Holistic Detection System:''], br,
        Text (bullet @ '' ''), Elem ''strong'' [] [Text ''Full Body Detection:''],
        Text '' Detects pose, hands, and face landmarks'', br,
        Text (bullet @ '' ''), Elem ''strong'' [] [Text ''Kalman Filtering:''],
        Text '' Advanced smoothing for stable measurements'', br,
        Text (bullet @ '' ''), Elem ''strong'' [] [Text ''Smart Calibration:''],
        Text '' Uses torso length with 40 samples and trimmed mean'', br,
        Text (bullet @ '' ''), Elem ''strong'' [] [Text ''Precise Head Detection:''],
        Text '' Uses ears, eyes, and nose with body scale reference'', br,
        Text (bullet @ '' ''), Elem ''strong'' [] [Text ''Enhanced Accuracy:''],
        Text '' Measures from true head top to toe tips'', br,
        Text (bullet @ '' ''), Elem ''strong'' [] [Text ''Visual Feedback:''],
        Text '' Shows head top markers and measurement lines'', br,
        Text (bullet @ '' Works best when you stand 2-3 meters from camera with full body visible'')]"

definition status_badge :: jsx where
  "status_badge =
     Elem ''StatusBadge'' [(''isCalibrated'', ABool True)]
       [Text (check_mark @ '' Auto-Calibrated'')]"

text \<open>The component, from its prop \<open>isCalibrated\<close> and its state.\<close>

definition CalibrationComponent :: "bool \<Rightarrow> calibration_form \<Rightarrow> jsx" where
  "CalibrationComponent calibrated st =
     Elem ''CalibrationContainer'' []
       ([Elem ''Title'' [] [Text ''System Calibration''],
         status_badge,
         Elem ''SuccessMessage'' []
           [Text (check_mark
                  @ '' System uses automatic calibration - no manual setup required!'')]]
        @ jsx_and False (manual_form st)
        @ [system_notes])"

subsection \<open>Events of the calibration form\<close>

datatype ui_event = Click handler | Change handler string

fun event_handler :: "ui_event \<Rightarrow> handler" where
  "event_handler (Click h) = h"
| "event_handler (Change h v) = h"

text \<open>
  What an event does once it reaches its handler. The setters answer change events,
  \<open>handleCalibrate\<close> a click; no other pairing is bound anywhere in the component.
\<close>

fun fire ::
  "(string \<Rightarrow> real option) \<Rightarrow> calibrate_reply \<Rightarrow> ui_event \<Rightarrow> calibration_form \<Rightarrow>
   (calibration_form \<times> calibrate_request list \<times> bool) js_result" where
  "fire parseFloat reply (Click HandleCalibrate) st = handleCalibrate parseFloat reply st"
| "fire parseFloat reply (Change SetReferenceObject v) st =
     Returned (st\<lparr>referenceObject := v\<rparr>, [], False)"
| "fire parseFloat reply (Change SetCustomHeight v) st =
     Returned (st\<lparr>customHeight := v\<rparr>, [], False)"
| "fire parseFloat reply (Change SetReferenceHeightPixels v) st =
     Returned (st\<lparr>referenceHeightPixels := v\<rparr>, [], False)"
| "fire parseFloat reply ev st = Returned (st, [], False)"

text \<open>
  The runs of the rendered component: an event happens only on a handler that the tree
  rendered from the current state offers. A configuration is the form state with the
  requests posted so far; the prop \<open>isCalibrated\<close> may differ from render to render.
\<close>

inductive ui_reach ::
  "(string \<Rightarrow> real option) \<Rightarrow> calibration_form \<Rightarrow>
   calibration_form \<times> calibrate_request list \<Rightarrow> bool"
  for parseFloat :: "string \<Rightarrow> real option" and st0 :: calibration_form where
  start: "ui_reach parseFloat st0 (st0, [])"
| event:
    "ui_reach parseFloat st0 (st, posts) \<Longrightarrow>
     event_handler ev \<in> set (handlers (CalibrationComponent calibrated st)) \<Longrightarrow>
     fire parseFloat reply ev st = Returned (st', new_posts, completed) \<Longrightarrow>
     ui_reach parseFloat st0 (st', posts @ new_posts)"

section \<open>Sample inputs\<close>

definition sample_height :: HeightData where
  "sample_height =
     \<lparr>height_cm = 172.4, height_feet_inches = ''5 ft 7.9 in'', confidence = 87,
      measurement_method = None\<rparr>"

text \<open>A message of the given type with no other field.\<close>

definition plain_msg :: "string \<Rightarrow> server_msg" where
  "plain_msg ty = \<lparr>msg_image = None, msg_type = ty, msg_progress = None, msg_height = None\<rparr>"

text \<open>A session in the middle of measuring.\<close>

definition busy_state :: client_state where
  "busy_state =
     \<lparr>isCalibrated = True, heightData = Some sample_height, isDetecting = True,
      cameraError = Some ''Connection to server failed.'', isConnected = True,
      cam_isDetecting = True, processedImage = Some ''data:image/jpeg;base64,QUJD'',
      cam_error = None, calibrationProgress = None, hasInteracted = True\<rparr>"

text \<open>A playing 640 by 480 video on an open socket, with and without a canvas context.\<close>

definition live_env :: capture_env where
  "live_env =
     \<lparr>videoRef = Some \<lparr>paused = False, ended = False, videoWidth = 640, videoHeight = 480\<rparr>,
      wsRef = Some OPEN, context2d = True, frame_jpeg_base64 = ''/9j/4AAQ''\<rparr>"

definition no_context_env :: capture_env where
  "no_context_env = live_env\<lparr>context2d := False\<rparr>"

section \<open>The calibration estimator reaches its target\<close>

lemma feed_short:
  "length samples + length xs < TARGET_SAMPLES \<Longrightarrow>
   feed (Uncalibrated samples) xs = Uncalibrated (samples @ xs)"
  unfolding feed_def
  by (induction xs arbitrary: samples) (simp_all add: Let_def)

lemma feed_snoc: "feed st (xs @ [x]) = add_sample x (feed st xs)"
  by (simp add: feed_def)

lemma trim_tails_40:
  "length xs = 40 \<Longrightarrow> trim_tails xs = take 32 (drop 4 (sort xs))"
  by (simp add: trim_tails_def Let_def)

lemma mean_pos:
  assumes "xs \<noteq> []" and "\<forall>x\<in>set xs. 0 < x"
  shows "0 < mean xs"
proof -
  have "0 < sum_list xs" using assms
    by (induction xs) (auto intro: add_pos_nonneg sum_list_nonneg less_imp_le)
  moreover have "0 < real (length xs)" using assms(1) by simp
  ultimately show ?thesis by (simp add: mean_def)
qed

lemma middle_subset: "set (take n (drop k (sort xs))) \<subseteq> set xs"
proof -
  have "set (take n (drop k (sort xs))) \<subseteq> set (sort xs)"
    by (meson set_take_subset set_drop_subset subset_trans)
  then show ?thesis by simp
qed

lemma feed_full:
  assumes len: "length xs = 40"
  shows "feed (Uncalibrated []) xs =
    (let torso_px = mean (take 32 (drop 4 (sort xs)))
     in if torso_px \<le> 0 then Uncalibrated [] else Calibrated (50 / torso_px))"
proof -
  from len have ne: "xs \<noteq> []" by auto
  then have split: "xs = butlast xs @ [last xs]" by simp
  have "length (butlast xs) = 39" using len by simp
  then have short: "feed (Uncalibrated []) (butlast xs) = Uncalibrated (butlast xs)"
    using feed_short [of "[]" "butlast xs"] by (simp add: TARGET_SAMPLES_def)
  have "feed (Uncalibrated []) xs = add_sample (last xs) (Uncalibrated (butlast xs))"
    using feed_snoc [of "Uncalibrated []" "butlast xs" "last xs"] split short by simp
  also have "\<dots> = (let torso_px = mean (trim_tails xs)
     in if torso_px \<le> 0 then Uncalibrated [] else Calibrated (50 / torso_px))"
    using split len by (simp add: Let_def TARGET_SAMPLES_def REFERENCE_TORSO_CM_def)
  finally show ?thesis using len by (simp add: trim_tails_40)
qed

lemma middle_mean_pos:
  assumes len: "length xs = 40" and pos: "\<forall>x\<in>set xs. 0 < x"
  shows "0 < mean (take 32 (drop 4 (sort xs)))"
proof (rule mean_pos)
  have "length (take 32 (drop 4 (sort xs))) = 32" using len by simp
  then show "take 32 (drop 4 (sort xs)) \<noteq> []" by auto
  show "\<forall>x\<in>set (take 32 (drop 4 (sort xs))). 0 < x"
    using pos middle_subset [of 32 4 xs] by blast
qed

lemma synthetic_sorted: "sort (map real [1..<41]) = map real [1..<41]"
  by (simp add: upt_rec)

lemma synthetic_scale:
  "feed (Uncalibrated []) (map real [1..<41]) = Calibrated (50 / 20.5)"
proof -
  have len: "length (map real [1..<41]) = 40" by simp
  have m: "mean (take 32 (drop 4 (sort (map real [1..<41])))) = 41 / 2"
    unfolding synthetic_sorted by (simp add: mean_def upt_rec)
  have "feed (Uncalibrated []) (map real [1..<41]) =
    (let torso_px = mean (take 32 (drop 4 (sort (map real [1..<41]))))
     in if torso_px \<le> 0 then Uncalibrated [] else Calibrated (50 / torso_px))"
    by (rule feed_full [OF len])
  also have "\<dots> = Calibrated (50 / 20.5)"
    unfolding m by (simp add: Let_def)
  finally show ?thesis .
qed

text \<open>
  Claim C1. Fed exactly 40 torso samples, all positive pixel lengths, the estimator is
  \<open>Calibrated\<close> with the scale 50 divided by the mean of the middle 32 samples, the 4
  lowest and the 4 highest of the sorted buffer discarded. Fed 39 samples it is still
  \<open>Uncalibrated\<close> and holds them. For the samples 1, 2, ..., 40 the scale is 50 / 20.5.
\<close>

theorem calibration_after_40_samples:
  "(length xs = 40 \<and> (\<forall>x\<in>set xs. 0 < x) \<longrightarrow>
      feed (Uncalibrated []) xs = Calibrated (50 / mean (take 32 (drop 4 (sort xs)))))
   \<and> (length ys = 39 \<longrightarrow> feed (Uncalibrated []) ys = Uncalibrated ys)
   \<and> feed (Uncalibrated []) (map real [1..<41]) = Calibrated (50 / 20.5)"
proof (intro conjI impI)
  assume h: "length xs = 40 \<and> (\<forall>x\<in>set xs. 0 < x)"
  then have "0 < mean (take 32 (drop 4 (sort xs)))"
    using middle_mean_pos by blast
  then show "feed (Uncalibrated []) xs = Calibrated (50 / mean (take 32 (drop 4 (sort xs))))"
    using h feed_full [of xs] by (simp add: Let_def)
next
  assume "length ys = 39"
  then show "feed (Uncalibrated []) ys = Uncalibrated ys"
    using feed_short [of "[]" ys] by (simp add: TARGET_SAMPLES_def)
next
  show "feed (Uncalibrated []) (map real [1..<41]) = Calibrated (50 / 20.5)"
    by (rule synthetic_scale)
qed

text \<open>Forty samples of 100 pixels give half a centimetre per pixel.\<close>

lemma sort_replicate: "sort (replicate n (x::real)) = replicate n x"
  by (simp add: sorted_sort_id sorted_replicate)

theorem calibration_after_40_samples_witness:
  "feed (Uncalibrated []) (replicate 40 100) = Calibrated (1 / 2)
   \<and> feed (Uncalibrated []) (replicate 39 100) = Uncalibrated (replicate 39 100)"
  using calibration_after_40_samples [of "replicate 40 100" "replicate 39 100"]
  by (simp add: sort_replicate mean_def sum_list_replicate)

section \<open>The client state machine\<close>

lemma isCalibrated_set_image: "isCalibrated (set_image d s) = isCalibrated s"
  by (simp add: set_image_def split: option.splits)

lemma isCalibrated_handleHeightUpdate:
  "isCalibrated (handleHeightUpdate data s) =
     (isCalibrated s \<or> (\<exists>h. data = Some h \<and> 0 < height_cm h))"
  by (cases data) (simp_all add: handleHeightUpdate_def Let_def)

lemma isCalibrated_switch_type:
  "isCalibrated (switch_type d s) =
     (isCalibrated s \<or>
      (msg_type d = ''height_update'' \<and> (\<exists>h. msg_height d = Some h \<and> 0 < height_cm h)))"
  by (simp add: switch_type_def handleDetectionToggle_def isCalibrated_handleHeightUpdate)

lemma isCalibrated_onmessage:
  "isCalibrated (onmessage d s) =
     (isCalibrated s \<or>
      (msg_type d = ''height_update'' \<and> (\<exists>h. msg_height d = Some h \<and> 0 < height_cm h)))"
  by (simp add: onmessage_def isCalibrated_switch_type isCalibrated_set_image)

lemma receive_all_keeps_calibrated:
  "isCalibrated s \<Longrightarrow> isCalibrated (receive_all s ds)"
  unfolding receive_all_def
  by (induction ds arbitrary: s) (simp_all add: isCalibrated_onmessage)

lemma receive_all_append: "receive_all s (ds @ es) = receive_all (receive_all s ds) es"
  by (simp add: receive_all_def)

lemma isCalibrated_handleReset: "\<not> isCalibrated (fst (handleReset cameraRef ws s))"
  by (simp add: handleReset_def resetSystem_def Let_def)

text \<open>
  Claim C2. Handling an inbound message leaves the calibrated flag true when it was true,
  and makes it true only for a \<open>height_update\<close> whose payload is present with
  \<open>height_cm\<close> above 0. So along any sequence of inbound messages the flag never
  goes from true to false: true after a prefix, it is true after every extension. Only
  the client's own reset makes it false.
\<close>

theorem calibrated_flag_monotone:
  "isCalibrated (onmessage d s) =
     (isCalibrated s \<or>
      (msg_type d = ''height_update'' \<and> (\<exists>h. msg_height d = Some h \<and> 0 < height_cm h)))
   \<and> (isCalibrated (receive_all s ds) \<longrightarrow> isCalibrated (receive_all s (ds @ es)))
   \<and> \<not> isCalibrated (fst (handleReset cameraRef ws s))"
  by (simp add: isCalibrated_onmessage receive_all_append receive_all_keeps_calibrated
      isCalibrated_handleReset)

theorem calibrated_flag_monotone_witness:
  "isCalibrated
     (receive_all initial_state [(plain_msg ''height_update'')\<lparr>msg_height := Some sample_height\<rparr>])
   \<and> isCalibrated
     (receive_all initial_state
        ([(plain_msg ''height_update'')\<lparr>msg_height := Some sample_height\<rparr>]
         @ [plain_msg ''calibrating'', plain_msg ''info'', plain_msg ''no_person'',
            plain_msg ''reset_ack'']))"
proof -
  have first: "isCalibrated
     (receive_all initial_state [(plain_msg ''height_update'')\<lparr>msg_height := Some sample_height\<rparr>])"
    using calibrated_flag_monotone
      [of "(plain_msg ''height_update'')\<lparr>msg_height := Some sample_height\<rparr>" initial_state]
    by (simp add: receive_all_def plain_msg_def sample_height_def)
  then show ?thesis
    using calibrated_flag_monotone
      [of _ initial_state "[(plain_msg ''height_update'')\<lparr>msg_height := Some sample_height\<rparr>]"
          "[plain_msg ''calibrating'', plain_msg ''info'', plain_msg ''no_person'',
            plain_msg ''reset_ack'']"]
    by blast
qed

text \<open>
  Claim C3. The reset run twice in a row leaves the state the first run left, whatever
  the socket does in between: height data cleared, calibrated and detection flags false,
  camera error cleared and, the camera component being mounted, calibration progress 0
  and processed image cleared.
\<close>

theorem reset_idempotent:
  "fst (handleReset cameraRef ws' (fst (handleReset cameraRef ws s)))
     = fst (handleReset cameraRef ws s)
   \<and> heightData (fst (handleReset cameraRef ws s)) = None
   \<and> \<not> isCalibrated (fst (handleReset cameraRef ws s))
   \<and> \<not> isDetecting (fst (handleReset cameraRef ws s))
   \<and> cameraError (fst (handleReset cameraRef ws s)) = None
   \<and> (cameraRef \<longrightarrow>
        calibrationProgress (fst (handleReset cameraRef ws s)) = Some 0
        \<and> processedImage (fst (handleReset cameraRef ws s)) = None)"
  by (simp add: handleReset_def resetSystem_def Let_def)

theorem reset_idempotent_witness:
  "fst (handleReset True (Some OPEN) (fst (handleReset True (Some OPEN) busy_state)))
     = busy_state\<lparr>isCalibrated := False, heightData := None, isDetecting := False,
         cameraError := None, processedImage := None, calibrationProgress := Some 0\<rparr>"
  using reset_idempotent [of True "Some OPEN" "Some OPEN" busy_state]
  by (simp add: handleReset_def resetSystem_def Let_def)

text \<open>
  Claim C4. A \<open>calibrating\<close> message stores its \<open>progress\<close> field as the calibration
  progress, 0 when the field is absent, clears the height data and turns both detection
  flags off; the height display rendered from the new state shows no number at all.
\<close>

theorem calibrating_message:
  "msg_type d = ''calibrating'' \<Longrightarrow>
     calibrationProgress (onmessage d s)
       = Some (case msg_progress d of None \<Rightarrow> 0 | Some p \<Rightarrow> p)
     \<and> heightData (onmessage d s) = None
     \<and> \<not> isDetecting (onmessage d s)
     \<and> \<not> cam_isDetecting (onmessage d s)
     \<and> (\<forall>x n. Fixed x n \<notin> set (subtrees (HeightDisplay (display_props (onmessage d s)))))"
  by (auto simp add: onmessage_def switch_type_def set_image_def handleDetectionToggle_def
      handleHeightUpdate_def progress_or_zero_def Let_def HeightDisplay_def display_props_def
      no_measurement_view_def getStatusMessage_def split: option.splits)

theorem calibrating_message_witness:
  "calibrationProgress (onmessage ((plain_msg ''calibrating'')\<lparr>msg_progress := Some 45\<rparr>) busy_state)
     = Some 45
   \<and> heightData (onmessage ((plain_msg ''calibrating'')\<lparr>msg_progress := Some 45\<rparr>) busy_state) = None
   \<and> calibrationProgress (onmessage (plain_msg ''calibrating'') busy_state) = Some 0"
  using calibrating_message [of "(plain_msg ''calibrating'')\<lparr>msg_progress := Some 45\<rparr>" busy_state]
    calibrating_message [of "plain_msg ''calibrating''" busy_state]
  by (simp add: plain_msg_def)

lemma switch_type_no_person:
  assumes "msg_type d = ''info'' \<or> msg_type d = ''no_person''"
  shows "switch_type d s =
    s\<lparr>heightData := None, isDetecting := False, cam_isDetecting := False\<rparr>"
  using assms
proof
  assume "msg_type d = ''info''"
  then show ?thesis
    by (simp add: switch_type_def handleDetectionToggle_def handleHeightUpdate_def)
next
  assume "msg_type d = ''no_person''"
  then show ?thesis
    by (simp add: switch_type_def handleDetectionToggle_def handleHeightUpdate_def)
qed

lemma set_image_fields:
  "set_image d s =
     s\<lparr>processedImage :=
         (case msg_image d of
            None \<Rightarrow> processedImage s
          | Some img \<Rightarrow>
              if img \<noteq> [] then Some (''data:image/jpeg;base64,'' @ img)
              else processedImage s)\<rparr>"
  by (cases "msg_image d") (simp_all add: set_image_def)

text \<open>
  Claim C5 as stated fails: a \<open>no_person\<close> message that carries an image changes the
  processed image too, not only the height data and the detection flags.
\<close>

theorem no_person_frame_counterexample:
  "onmessage ((plain_msg ''no_person'')\<lparr>msg_image := Some ''QUJD''\<rparr>) initial_state
     \<noteq> initial_state\<lparr>heightData := None, isDetecting := False, cam_isDetecting := False\<rparr>"
  by (simp add: onmessage_def switch_type_def set_image_def handleDetectionToggle_def
      handleHeightUpdate_def Let_def plain_msg_def initial_state_def)

text \<open>
  Claim C5, amended. An \<open>info\<close> or \<open>no_person\<close> message clears the height data and
  turns the detection flags off; the processed image is replaced when the message carries
  a non-empty image; nothing else changes, in particular neither the calibration progress
  nor the calibrated flag.
\<close>

theorem no_person_frame:
  "msg_type d = ''info'' \<or> msg_type d = ''no_person'' \<Longrightarrow>
     onmessage d s =
       s\<lparr>heightData := None, isDetecting := False, cam_isDetecting := False,
         processedImage :=
           (case msg_image d of
              None \<Rightarrow> processedImage s
            | Some img \<Rightarrow>
                if img \<noteq> [] then Some (''data:image/jpeg;base64,'' @ img)
                else processedImage s)\<rparr>
     \<and> calibrationProgress (onmessage d s) = calibrationProgress s
     \<and> isCalibrated (onmessage d s) = isCalibrated s"
  unfolding onmessage_def
  by (simp add: switch_type_no_person) (simp add: set_image_fields)

theorem no_person_frame_witness:
  "onmessage (plain_msg ''no_person'') busy_state
     = busy_state\<lparr>heightData := None, isDetecting := False, cam_isDetecting := False\<rparr>
   \<and> onmessage ((plain_msg ''info'')\<lparr>msg_image := Some ''WFla''\<rparr>) busy_state
     = busy_state\<lparr>heightData := None, isDetecting := False, cam_isDetecting := False,
         processedImage := Some ''data:image/jpeg;base64,WFla''\<rparr>"
  using no_person_frame [of "plain_msg ''no_person''" busy_state]
    no_person_frame [of "(plain_msg ''info'')\<lparr>msg_image := Some ''WFla''\<rparr>" busy_state]
  by (simp add: plain_msg_def busy_state_def)

text \<open>
  Claim C6. The \<open>reset_ack\<close> case of the switch sets the calibration progress to 0 and
  changes nothing else. For the handler as a whole: the progress is 0 afterwards, height
  data, detection flags and calibrated flag are as before, and a message without an image
  changes the progress only.
\<close>

theorem reset_ack_message:
  "msg_type d = ''reset_ack'' \<Longrightarrow>
     switch_type d s = s\<lparr>calibrationProgress := Some 0\<rparr>
     \<and> onmessage d s = (set_image d s)\<lparr>calibrationProgress := Some 0\<rparr>
     \<and> calibrationProgress (onmessage d s) = Some 0
     \<and> heightData (onmessage d s) = heightData s
     \<and> isDetecting (onmessage d s) = isDetecting s
     \<and> cam_isDetecting (onmessage d s) = cam_isDetecting s
     \<and> isCalibrated (onmessage d s) = isCalibrated s
     \<and> (msg_image d = None \<longrightarrow> onmessage d s = s\<lparr>calibrationProgress := Some 0\<rparr>)"
  unfolding onmessage_def
  by (simp add: switch_type_def) (simp add: set_image_fields)

theorem reset_ack_message_witness:
  "onmessage ((plain_msg ''reset_ack'')\<lparr>msg_progress := Some 0\<rparr>) busy_state
     = busy_state\<lparr>calibrationProgress := Some 0\<rparr>"
  using reset_ack_message [of "(plain_msg ''reset_ack'')\<lparr>msg_progress := Some 0\<rparr>" busy_state]
  by (simp add: plain_msg_def set_image_def)

text \<open>
  Claim C7. \<open>resetSystem\<close> sends the one message \<open>{"type":"reset"}\<close> when the socket is
  \<open>OPEN\<close> and nothing otherwise; either way the calibration progress becomes 0 and the
  processed image is cleared, and nothing else changes. \<open>handleReset\<close> sends what
  \<open>resetSystem\<close> sends.
\<close>

theorem reset_sends_one_message:
  "snd (resetSystem ws s) = (if ws = Some OPEN then [[(''type'', ''reset'')]] else [])
   \<and> (ws = Some OPEN \<longrightarrow> length (snd (resetSystem ws s)) = 1)
   \<and> (ws \<noteq> Some OPEN \<longrightarrow> snd (resetSystem ws s) = [])
   \<and> calibrationProgress (fst (resetSystem ws s)) = Some 0
   \<and> processedImage (fst (resetSystem ws s)) = None
   \<and> fst (resetSystem ws s) = s\<lparr>processedImage := None, calibrationProgress := Some 0\<rparr>
   \<and> snd (handleReset True ws s) = snd (resetSystem ws s)"
  by (simp add: resetSystem_def handleReset_def Let_def)

theorem reset_sends_one_message_witness:
  "snd (resetSystem (Some OPEN) busy_state) = [[(''type'', ''reset'')]]
   \<and> snd (resetSystem (Some CLOSED) busy_state) = []
   \<and> snd (resetSystem (Some CONNECTING) busy_state) = []
   \<and> snd (resetSystem None busy_state) = []"
  using reset_sends_one_message [of "Some OPEN" busy_state]
    reset_sends_one_message [of "Some CLOSED" busy_state]
    reset_sends_one_message [of "Some CONNECTING" busy_state]
    reset_sends_one_message [of None busy_state]
  by simp

section \<open>Capturing a frame\<close>

lemma split_no_separator: "c \<notin> set w \<Longrightarrow> split c w = [w]"
  by (induction w) auto

lemma split_at_first:
  "c \<notin> set p \<Longrightarrow> split c (p @ c # r) = p # split c r"
  by (induction p) auto

lemma split_data_url:
  assumes "CHR '','' \<notin> set b"
  shows "index (split CHR '','' (''data:image/jpeg;base64,'' @ b)) 1 = Some b"
proof -
  have "split CHR '','' (''data:image/jpeg;base64'' @ CHR '','' # b)
          = ''data:image/jpeg;base64'' # split CHR '','' b"
    by (rule split_at_first) simp
  then show ?thesis
    using assms by (simp add: split_no_separator index_def)
qed

lemma captureFrame_sends_iff:
  "sent (captureFrame env) \<noteq> [] \<longleftrightarrow>
     wsRef env = Some OPEN \<and> context2d env
     \<and> (\<exists>v. videoRef env = Some v \<and> 0 < videoWidth v \<and> 0 < videoHeight v)"
  by (auto simp add: captureFrame_def Let_def split: option.splits)

lemma captureFrame_at_most_one: "length (sent (captureFrame env)) \<le> 1"
  by (simp add: captureFrame_def Let_def split: option.splits)

lemma captureFrame_payload:
  assumes "CHR '','' \<notin> set (frame_jpeg_base64 env)"
    and "m \<in> set (sent (captureFrame env))"
  shows "m = [(''type'', ''image''), (''data'', frame_jpeg_base64 env)]"
proof -
  have "index (split CHR '','' (toDataURL env)) 1 = Some (frame_jpeg_base64 env)"
    unfolding toDataURL_def using assms(1) by (rule split_data_url)
  then show ?thesis
    using assms(2)
    by (auto simp add: captureFrame_def Let_def image_message_def
        split: option.splits if_splits)
qed

text \<open>
  Claim C8 as stated fails: with the socket \<open>OPEN\<close> and a 640 by 480 video,
  \<open>captureFrame\<close> sends nothing when the canvas gives no 2D context.
\<close>

theorem capture_without_context_counterexample:
  "wsRef no_context_env = Some OPEN
   \<and> videoRef no_context_env
       = Some \<lparr>paused = False, ended = False, videoWidth = 640, videoHeight = 480\<rparr>
   \<and> sent (captureFrame no_context_env) = []"
  by (simp add: no_context_env_def live_env_def captureFrame_def Let_def)

text \<open>
  Claim C8, amended. \<open>captureFrame\<close> sends a message exactly when the socket is
  \<open>OPEN\<close>, the video element has positive width and height and the canvas gives a 2D
  context. It sends at most one message, and that message has the type \<open>image\<close> and,
  as \<open>data\<close>, the base64 text of the frame's JPEG (base64 text has no comma).
\<close>

theorem capture_sends_image:
  "(sent (captureFrame env) \<noteq> [] \<longleftrightarrow>
      wsRef env = Some OPEN \<and> context2d env
      \<and> (\<exists>v. videoRef env = Some v \<and> 0 < videoWidth v \<and> 0 < videoHeight v))
   \<and> length (sent (captureFrame env)) \<le> 1
   \<and> (CHR '','' \<notin> set (frame_jpeg_base64 env) \<longrightarrow>
        (\<forall>m\<in>set (sent (captureFrame env)).
           m = [(''type'', ''image''), (''data'', frame_jpeg_base64 env)]))"
  using captureFrame_sends_iff [of env] captureFrame_at_most_one [of env]
    captureFrame_payload [of env]
  by blast

theorem capture_sends_image_witness:
  "sent (captureFrame live_env) = [[(''type'', ''image''), (''data'', ''/9j/4AAQ'')]]"
proof -
  have "sent (captureFrame live_env) \<noteq> []"
    using capture_sends_image [of live_env] by (simp add: live_env_def)
  moreover have "length (sent (captureFrame live_env)) \<le> 1"
    using capture_sends_image [of live_env] by blast
  moreover have "\<forall>m\<in>set (sent (captureFrame live_env)).
      m = [(''type'', ''image''), (''data'', ''/9j/4AAQ'')]"
    using capture_sends_image [of live_env] by (simp add: live_env_def)
  ultimately show ?thesis
    by (cases "sent (captureFrame live_env)") auto
qed

section \<open>The height display\<close>

lemma getStatusMessage_warning:
  "(\<exists>m. getStatusMessage p = Some (''warning'', m)) \<longleftrightarrow>
     p_isCalibrated p \<and> p_isDetecting p
     \<and> (\<exists>h. p_heightData p = Some h \<and> confidence h < 0.5)"
  by (auto simp add: getStatusMessage_def split: option.splits)

lemma subtrees_HeightDisplay:
  "set (subtrees (HeightDisplay p)) =
     {HeightDisplay p, Elem ''Title'' [] [Text ''Height Measurement''],
      Text ''Height Measurement''}
     \<union> (\<Union>t\<in>set (case p_heightData p of
                     None \<Rightarrow> no_measurement_view p
                   | Some h \<Rightarrow> if p_isDetecting p then measurement_view p h
                              else no_measurement_view p). set (subtrees t))
     \<union> (case getStatusMessage p of
          None \<Rightarrow> {}
        | Some (ty, message) \<Rightarrow>
            {Elem ''StatusMessage'' [(''type'', AStr ty)] [Text message], Text message})"
  by (auto simp add: HeightDisplay_def split: option.splits)

lemma warning_not_in_no_measurement_view:
  "t \<in> set (no_measurement_view p) \<Longrightarrow>
   Elem ''StatusMessage'' [(''type'', AStr ''warning'')] [Text m] \<notin> set (subtrees t)"
  by (auto simp add: no_measurement_view_def)

lemma warning_not_in_measurement_view:
  "t \<in> set (measurement_view p h) \<Longrightarrow>
   Elem ''StatusMessage'' [(''type'', AStr ''warning'')] [Text m] \<notin> set (subtrees t)"
  by (auto simp add: measurement_view_def jsx_and_string_def split: option.splits)

lemma warning_shown_iff:
  "Elem ''StatusMessage'' [(''type'', AStr ''warning'')] [Text m] \<in> set (subtrees (HeightDisplay p))
     \<longleftrightarrow> getStatusMessage p = Some (''warning'', m)"
proof -
  have "Elem ''StatusMessage'' [(''type'', AStr ''warning'')] [Text m] \<noteq> HeightDisplay p"
    by (simp add: HeightDisplay_def)
  then show ?thesis
    unfolding subtrees_HeightDisplay
    using warning_not_in_no_measurement_view [of _ p m]
      warning_not_in_measurement_view [of _ p _ m]
    by (auto split: option.splits if_splits)
qed

lemma warning_message_text:
  "getStatusMessage p = Some (''warning'', m) \<Longrightarrow> m = low_confidence_message"
  by (auto simp add: getStatusMessage_def split: option.splits if_splits)

lemma confidence_rendering:
  assumes "p_heightData p = Some h" and "p_isDetecting p"
  shows "Elem ''ConfidenceBarFill'' [(''confidence'', ANum (confidence h / 100))] []
           \<in> set (subtrees (HeightDisplay p))"
    and "Elem ''ConfidenceValue'' [] [Fixed (confidence h) 0, Text ''%'']
           \<in> set (subtrees (HeightDisplay p))"
  unfolding subtrees_HeightDisplay using assms
  by (simp_all add: measurement_view_def)

text \<open>
  Claim C9. The low-confidence warning is rendered exactly when the system is calibrated
  and detecting and the height data has a confidence below 0.5. The same confidence is
  shown as a percentage: divided by 100 for the bar, and with \<open>toFixed(0)\<close> and a
  percent sign as text. So no warning is rendered for a confidence from 0.5 to 100.
\<close>

theorem low_confidence_warning:
  "(Elem ''StatusMessage'' [(''type'', AStr ''warning'')] [Text low_confidence_message]
      \<in> set (subtrees (HeightDisplay p))
    \<longleftrightarrow> p_isCalibrated p \<and> p_isDetecting p
        \<and> (\<exists>h. p_heightData p = Some h \<and> confidence h < 0.5))
   \<and> (p_heightData p = Some h \<and> p_isDetecting p \<longrightarrow>
        Elem ''ConfidenceBarFill'' [(''confidence'', ANum (confidence h / 100))] []
          \<in> set (subtrees (HeightDisplay p))
        \<and> Elem ''ConfidenceValue'' [] [Fixed (confidence h) 0, Text ''%'']
          \<in> set (subtrees (HeightDisplay p)))
   \<and> (p_heightData p = Some h \<and> 0.5 \<le> confidence h \<and> confidence h \<le> 100 \<longrightarrow>
        (\<forall>m. Elem ''StatusMessage'' [(''type'', AStr ''warning'')] [Text m]
               \<notin> set (subtrees (HeightDisplay p))))"
proof (intro conjI impI allI)
  show "Elem ''StatusMessage'' [(''type'', AStr ''warning'')] [Text low_confidence_message]
      \<in> set (subtrees (HeightDisplay p))
    \<longleftrightarrow> p_isCalibrated p \<and> p_isDetecting p
        \<and> (\<exists>h. p_heightData p = Some h \<and> confidence h < 0.5)"
    using getStatusMessage_warning [of p] warning_message_text [of p]
    unfolding warning_shown_iff by blast
next
  assume "p_heightData p = Some h \<and> p_isDetecting p"
  then show "Elem ''ConfidenceBarFill'' [(''confidence'', ANum (confidence h / 100))] []
          \<in> set (subtrees (HeightDisplay p))"
    and "Elem ''ConfidenceValue'' [] [Fixed (confidence h) 0, Text ''%'']
          \<in> set (subtrees (HeightDisplay p))"
    using confidence_rendering [of p h] by blast+
next
  fix m
  assume "p_heightData p = Some h \<and> 0.5 \<le> confidence h \<and> confidence h \<le> 100"
  then have "\<not> (\<exists>h. p_heightData p = Some h \<and> confidence h < 0.5)" by auto
  then show "Elem ''StatusMessage'' [(''type'', AStr ''warning'')] [Text m]
               \<notin> set (subtrees (HeightDisplay p))"
    using getStatusMessage_warning [of p] unfolding warning_shown_iff by blast
qed

theorem low_confidence_warning_witness:
  "Elem ''StatusMessage'' [(''type'', AStr ''warning'')] [Text low_confidence_message]
      \<in> set (subtrees (HeightDisplay
           \<lparr>p_heightData = Some (sample_height\<lparr>confidence := 0.3\<rparr>), p_isDetecting = True,
            p_isCalibrated = True\<rparr>))
   \<and> Elem ''ConfidenceBarFill'' [(''confidence'', ANum (87 / 100))] []
      \<in> set (subtrees (HeightDisplay
           \<lparr>p_heightData = Some sample_height, p_isDetecting = True, p_isCalibrated = True\<rparr>))
   \<and> Elem ''StatusMessage'' [(''type'', AStr ''warning'')] [Text low_confidence_message]
      \<notin> set (subtrees (HeightDisplay
           \<lparr>p_heightData = Some sample_height, p_isDetecting = True, p_isCalibrated = True\<rparr>))"
  using low_confidence_warning
      [of "\<lparr>p_heightData = Some (sample_height\<lparr>confidence := 0.3\<rparr>), p_isDetecting = True,
            p_isCalibrated = True\<rparr>" "sample_height\<lparr>confidence := 0.3\<rparr>"]
    low_confidence_warning
      [of "\<lparr>p_heightData = Some sample_height, p_isDetecting = True, p_isCalibrated = True\<rparr>"
          sample_height]
  by (simp add: sample_height_def)

section \<open>The calibration component\<close>

lemma handlers_system_notes: "handlers system_notes = []"
  by (simp add: system_notes_def br_def)

lemma handlers_CalibrationComponent: "handlers (CalibrationComponent calibrated st) = []"
  by (simp add: CalibrationComponent_def jsx_and_def status_badge_def handlers_system_notes)

lemma badge_rendered:
  "Elem ''StatusBadge'' [(''isCalibrated'', ABool True)] [Text (check_mark @ '' Auto-Calibrated'')]
     \<in> set (subtrees (CalibrationComponent calibrated st))"
  by (simp add: CalibrationComponent_def status_badge_def)

lemma ui_reach_stays:
  "ui_reach parseFloat st0 c \<Longrightarrow> c = (st0, [])"
  by (induction rule: ui_reach.induct) (simp_all add: handlers_CalibrationComponent)

text \<open>
  The guard alone keeps the form away: rendered, the form offers \<open>handleCalibrate\<close> as soon
  as a pixel height is typed in, and \<open>handleCalibrate\<close> then posts a request.
\<close>

lemma manual_form_offers_handleCalibrate:
  "referenceHeightPixels st \<noteq> [] \<Longrightarrow> \<not> isCalibrating st \<Longrightarrow>
   HandleCalibrate \<in> set (handlers (Elem ''Fragment'' [] (manual_form st)))"
  by (simp add: manual_form_def)

lemma handleCalibrate_posts:
  "handleCalibrate (\<lambda>t. if t = ''120'' then Some 120 else None) ReplyCalibrated
     (initial_form\<lparr>referenceHeightPixels := ''120''\<rparr>)
   = Returned
       (initial_form\<lparr>referenceHeightPixels := ''120'',
          success := Some ''Calibration completed successfully!''\<rparr>,
        [\<lparr>reference_height_cm = Some 5.4, reference_height_pixels = Some 120\<rparr>], True)"
  by (simp add: handleCalibrate_def le_zero_def initial_form_def referenceObjects_def Let_def)

text \<open>
  Claim C10. Whatever \<open>isCalibrated\<close> is, the component renders the badge with
  \<open>isCalibrated = true\<close> and the text Auto-Calibrated, and offers no handler at all,
  \<open>handleCalibrate\<close> included; so no run of the rendered component changes the form or
  posts a calibration request.
\<close>

theorem manual_calibration_unreachable:
  "Elem ''StatusBadge'' [(''isCalibrated'', ABool True)] [Text (check_mark @ '' Auto-Calibrated'')]
     \<in> set (subtrees (CalibrationComponent calibrated st))
   \<and> HandleCalibrate \<notin> set (handlers (CalibrationComponent calibrated st))
   \<and> handlers (CalibrationComponent calibrated st) = []
   \<and> (ui_reach parseFloat st0 (st', posts) \<longrightarrow> posts = [] \<and> st' = st0)"
  using ui_reach_stays [of parseFloat st0 "(st', posts)"]
  by (simp add: badge_rendered handlers_CalibrationComponent)

theorem manual_calibration_unreachable_witness:
  "ui_reach (\<lambda>t. if t = ''120'' then Some 120 else None) initial_form (initial_form, [])
   \<and> HandleCalibrate \<notin> set (handlers (CalibrationComponent False initial_form))
   \<and> HandleCalibrate \<notin> set (handlers (CalibrationComponent True initial_form))"
  using manual_calibration_unreachable [of False initial_form _ initial_form initial_form "[]"]
    manual_calibration_unreachable [of True initial_form _ initial_form initial_form "[]"]
    ui_reach.start [of "\<lambda>t. if t = ''120'' then Some 120 else None" initial_form]
  by simp

end
